theory Spec2Isabelle
  imports Main "HOL-Library.Product_Lexorder"
begin

section \<open>Python values used by schedule.py\<close>

text \<open>
  Every exception that the modelled functions can raise is a value of \<open>exn\<close>; a function
  that may raise returns \<open>exn + 'a\<close>, with \<open>Inl\<close> for the raised exception.
  \<open>InvalidTime\<close>, \<open>InvalidDate\<close> and \<open>DayNotInData\<close> are the classes of
  \<open>stuy_utils.errors\<close>; the others are Python's built-in exceptions.
\<close>

datatype exn =
    InvalidTime | InvalidDate | DayNotInData
  | AttributeError | IndexError | KeyError | TypeError | ValueError | StopIteration
  | OverflowError

text \<open>
  A \<open>datetime.date\<close> is represented by its proleptic Gregorian ordinal
  (\<open>date.toordinal()\<close>): \<open>date.min\<close> is 1 and \<open>date.max\<close> is \<open>MAXORDINAL\<close>.
  Python orders dates as it orders their ordinals. A \<open>datetime.time\<close> without an offset is
  the tuple (hour, minute, second, microsecond), which Python compares lexicographically.
\<close>

type_synonym date = int
type_synonym time = "nat \<times> nat \<times> nat \<times> nat"

definition MAXORDINAL :: int where
  "MAXORDINAL = 3652059"

text \<open>\<open>day + timedelta(days=k)\<close>: the ordinal is shifted, and a result outside the range
  of \<open>date\<close> raises OverflowError.\<close>

definition add_days :: "date \<Rightarrow> int \<Rightarrow> exn + date" where
  "add_days d k = (let n = d + k in if 0 < n \<and> n \<le> MAXORDINAL then Inr n else Inl OverflowError)"

text \<open>The year, month and day of an ordinal, as \<open>datetime._ord2ymd\<close> computes them.\<close>

definition DAYS_IN_MONTH :: "int list" where
  "DAYS_IN_MONTH = [-1, 31, 28, 31, 30, 31, 30, 31, 31, 30, 31, 30, 31]"

definition DAYS_BEFORE_MONTH :: "int list" where
  "DAYS_BEFORE_MONTH = [-1, 0, 31, 59, 90, 120, 151, 181, 212, 243, 273, 304, 334]"

definition ord2ymd :: "int \<Rightarrow> int \<times> int \<times> int" where
  "ord2ymd n0 =
     (let n = n0 - 1;
          n400 = n div 146097; n = n mod 146097;
          year = n400 * 400 + 1;
          n100 = n div 36524; n = n mod 36524;
          n4 = n div 1461; n = n mod 1461;
          n1 = n div 365; n = n mod 365;
          year = year + n100 * 100 + n4 * 4 + n1
      in if n1 = 4 \<or> n100 = 4 then (year - 1, 12, 31)
         else
           let leapyear = (n1 = 3 \<and> (n4 \<noteq> 24 \<or> n100 = 3));
               month = (n + 50) div 32;
               preceding = DAYS_BEFORE_MONTH ! nat month + (if 2 < month \<and> leapyear then 1 else 0)
           in if n < preceding
              then (let month = month - 1;
                        preceding = preceding
                          - (DAYS_IN_MONTH ! nat month + (if month = 2 \<and> leapyear then 1 else 0))
                    in (year, month, n - preceding + 1))
              else (year, month, n - preceding + 1))"

definition digit :: "int \<Rightarrow> char" where
  "digit k = ''0123456789'' ! nat k"

text \<open>\<open>date.isoformat()\<close>: the format \<open>%04d-%02d-%02d\<close> of year, month and day.\<close>

definition isoformat :: "date \<Rightarrow> string" where
  "isoformat d =
     (case ord2ymd d of (y, m, dd) \<Rightarrow>
        [digit (y div 1000 mod 10), digit (y div 100 mod 10), digit (y div 10 mod 10),
         digit (y mod 10), CHR ''-'', digit (m div 10), digit (m mod 10), CHR ''-'',
         digit (dd div 10), digit (dd mod 10)])"

text \<open>
  The argument \<open>day\<close> of the public functions: a \<open>date\<close>, a \<open>datetime\<close> (a date with a
  time of day), or an object that is not an instance of \<open>date\<close>. The only such object the
  module itself passes on is \<open>None\<close>, the result of \<open>get_next_school_day\<close>.
\<close>

datatype day_arg = Date date | Datetime date time | NoneObj

fun isinstance_date :: "day_arg \<Rightarrow> bool" where
  "isinstance_date (Date d) = True"
| "isinstance_date (Datetime d t) = True"
| "isinstance_date NoneObj = False"

text \<open>\<open>if isinstance(day, dt): day = day.date()\<close>, for an instance of \<open>date\<close>.\<close>

fun to_date :: "day_arg \<Rightarrow> date" where
  "to_date (Date d) = d"
| "to_date (Datetime d t) = d"
| "to_date NoneObj = 0"

fun of_optional :: "date option \<Rightarrow> day_arg" where
  "of_optional None = NoneObj"
| "of_optional (Some d) = Date d"

section \<open>The module's tables\<close>

text \<open>
  \<open>Info\<close> is the namedtuple of schedule.py. The rows of \<open>TERM_DAYS\<close> hold five strings;
  \<open>get_day_info\<close> returns an \<open>Info\<close> whose \<open>school\<close> is a bool and whose other fields
  are optional strings. \<open>Time\<close> is the namedtuple (start, end); its second field is named
  \<open>end'\<close> here.
\<close>

record ('s, 'f) Info =
  school :: 's
  cycle :: 'f
  schedule :: 'f
  testing :: 'f
  events :: 'f

record Time =
  start :: time
  end' :: time

text \<open>
  A bell schedule is an insertion-ordered \<open>dict\<close> from period name to \<open>Time\<close>: the list
  of its items, in order. \<open>TERM_DAYS\<close> is only looked up by key.
\<close>

type_synonym bells = "(string \<times> Time) list"

record env =
  TERM_DAYS :: "string \<Rightarrow> (string, string) Info option"
  REGULAR_BELL_SCHEDULE :: bells
  CONFERENCE_BELL_SCHEDULE :: bells
  HOMEROOM_BELL_SCHEDULE :: bells
  PTC_BELL_SCHEDULE :: bells
  EXTENDED_HOMEROOM_BELL_SCHEDULE :: bells

section \<open>Loading the tables\<close>

text \<open>
  The string operations of \<open>convert_12h_to_24h\<close>. \<open>list_get\<close> is indexing with a
  non-negative index, \<open>str_contains sub s\<close> is \<open>sub in s\<close>, and \<open>split_on sep s\<close> is
  \<open>s.split(sep)\<close> for a separator of one character.
\<close>

definition list_get :: "'a list \<Rightarrow> nat \<Rightarrow> exn + 'a" where
  "list_get xs i = (if i < length xs then Inr (xs ! i) else Inl IndexError)"

fun startswith :: "string \<Rightarrow> string \<Rightarrow> bool" where
  "startswith s [] = True"
| "startswith [] (p # ps) = False"
| "startswith (c # cs) (p # ps) = (c = p \<and> startswith cs ps)"

fun str_contains :: "string \<Rightarrow> string \<Rightarrow> bool" where
  "str_contains sub [] = (sub = [])"
| "str_contains sub (c # cs) = (startswith (c # cs) sub \<or> str_contains sub cs)"

fun split_on :: "char \<Rightarrow> string \<Rightarrow> string list" where
  "split_on sep [] = [[]]"
| "split_on sep (c # cs) =
     (if c = sep then [] # split_on sep cs
      else case split_on sep cs of
             w # ws \<Rightarrow> (c # w) # ws
           | [] \<Rightarrow> [[c]])"

text \<open>
  \<open>int(s)\<close> on ASCII text: surrounding whitespace (space, tab, line feed, vertical tab,
  form feed, carriage return) is stripped, a sign is optional, and the digits may be
  grouped by single underscores. Anything else raises ValueError, and so does a literal of
  more than 4300 digits, the default limit of the interpreter.
\<close>

definition is_space :: "char \<Rightarrow> bool" where
  "is_space c = (c \<in> set [CHR '' '', CHR 0x09, CHR 0x0A, CHR 0x0B, CHR 0x0C, CHR 0x0D])"

definition is_digit :: "char \<Rightarrow> bool" where
  "is_digit c = (c \<in> set ''0123456789'')"

fun digit_value :: "string \<Rightarrow> char \<Rightarrow> int" where
  "digit_value [] c = 0"
| "digit_value (d # ds) c = (if d = c then 0 else 1 + digit_value ds c)"

fun lstrip :: "string \<Rightarrow> string" where
  "lstrip [] = []"
| "lstrip (c # cs) = (if is_space c then lstrip cs else c # cs)"

definition strip :: "string \<Rightarrow> string" where
  "strip s = rev (lstrip (rev (lstrip s)))"

fun digits_ok :: "bool \<Rightarrow> string \<Rightarrow> bool" where
  "digits_ok after_digit [] = after_digit"
| "digits_ok after_digit (c # cs) =
     (if is_digit c then digits_ok True cs
      else if c = CHR ''_'' \<and> after_digit then digits_ok False cs
      else False)"

definition digits_value :: "string \<Rightarrow> int" where
  "digits_value s =
     foldl (\<lambda>acc c. if c = CHR ''_'' then acc else acc * 10 + digit_value ''0123456789'' c) 0 s"

definition py_int :: "string \<Rightarrow> exn + int" where
  "py_int s =
     (let body = strip s;
          (sign, ds) = (case body of
                          c # cs \<Rightarrow> if c = CHR ''-'' then (- 1, cs)
                                    else if c = CHR ''+'' then (1, cs)
                                    else (1, body)
                        | [] \<Rightarrow> (1, body))
      in if digits_ok False ds \<and> length (filter is_digit ds) \<le> 4300
         then Inr (sign * digits_value ds)
         else Inl ValueError)"

text \<open>\<open>str(i)\<close> for an integer.\<close>

fun str_nat :: "nat \<Rightarrow> string" where
  "str_nat n =
     (if n < 10 then [digit (int n)] else str_nat (n div 10) @ [digit (int (n mod 10))])"

declare str_nat.simps [simp del]

definition str_int :: "int \<Rightarrow> string" where
  "str_int i = (if i < 0 then CHR ''-'' # str_nat (nat (- i)) else str_nat (nat i))"

text \<open>
  \<open>isinstance(hours12, str)\<close> holds for every argument of type \<open>string\<close>, so the first
  check of the source has no branch here. The unpacking \<open>hours, minutes = ...\<close> raises
  ValueError unless the split has exactly two parts.
\<close>

definition convert_12h_to_24h :: "string \<Rightarrow> exn + string" where
  "convert_12h_to_24h hours12 =
     (if str_contains ''AM'' hours12 \<or> str_contains ''PM'' hours12 then
        (case list_get (split_on CHR '' '' hours12) 0 of
           Inl e \<Rightarrow> Inl e
         | Inr hours12time \<Rightarrow>
        (case list_get (split_on CHR '' '' hours12) 1 of
           Inl e \<Rightarrow> Inl e
         | Inr am_pm \<Rightarrow>
             if \<not> str_contains '':'' hours12 then Inl InvalidTime
             else
        (case split_on CHR '':'' hours12time of
           [hours, minutes] \<Rightarrow>
             (case py_int hours of
                Inl e \<Rightarrow> Inl e
              | Inr h \<Rightarrow>
                  if 12 < h then Inl InvalidTime
                  else
                    let hours = (if hours = ''12'' then ''0'' else hours) in
                    (case (if am_pm = ''PM''
                           then (case py_int hours of
                                   Inl e \<Rightarrow> Inl e
                                 | Inr h \<Rightarrow> Inr (str_int (h + 12)))
                           else Inr hours) of
                       Inl e \<Rightarrow> Inl e
                     | Inr hours \<Rightarrow>
                         (case py_int hours of
                            Inl e \<Rightarrow> Inl e
                          | Inr h \<Rightarrow>
                              let hours = (if h < 10 then ''0'' @ hours else hours)
                              in Inr (hours @ '':'' @ minutes))))
         | _ \<Rightarrow> Inl ValueError)))
      else Inl InvalidTime)"

text \<open>
  The list comprehension \<open>[time.fromisoformat(convert_12h_to_24h(element)) for element in
  row[1:]]\<close>: the first element that fails raises. \<open>time.fromisoformat\<close> belongs to the
  Python library and not to this module, and which strings it accepts depends on the
  version of the library: it is the parameter \<open>fromisoformat\<close> of the loading functions.
  Its results are the times without an offset that the tables of this model hold.
\<close>

fun convert_elements :: "(string \<Rightarrow> exn + time) \<Rightarrow> string list \<Rightarrow> exn + time list" where
  "convert_elements fromisoformat [] = Inr []"
| "convert_elements fromisoformat (element # elements) =
     (case convert_12h_to_24h element of
        Inl e \<Rightarrow> Inl e
      | Inr hours24 \<Rightarrow>
     (case fromisoformat hours24 of
        Inl e \<Rightarrow> Inl e
      | Inr t \<Rightarrow>
     (case convert_elements fromisoformat elements of
        Inl e \<Rightarrow> Inl e
      | Inr ts \<Rightarrow> Inr (t # ts))))"

text \<open>\<open>d[k] = v\<close> on an insertion-ordered dict: an existing key keeps its position.\<close>

fun dict_set :: "('k \<times> 'v) list \<Rightarrow> 'k \<Rightarrow> 'v \<Rightarrow> ('k \<times> 'v) list" where
  "dict_set [] k v = [(k, v)]"
| "dict_set ((k', v') # kvs) k v =
     (if k' = k then (k, v) # kvs else (k', v') # dict_set kvs k v)"

text \<open>
  The dict comprehensions of the module body, over the rows after the header row.
  \<open>row[0]\<close> raises IndexError on an empty row; \<open>Time(*xs)\<close> and \<open>Info(*xs)\<close> raise
  TypeError unless \<open>xs\<close> has two, respectively five, elements.
\<close>

fun load_bell_schedule ::
  "(string \<Rightarrow> exn + time) \<Rightarrow> string list list \<Rightarrow> bells \<Rightarrow> exn + bells" where
  "load_bell_schedule fromisoformat [] acc = Inr acc"
| "load_bell_schedule fromisoformat (row # rows) acc =
     (case list_get row 0 of
        Inl e \<Rightarrow> Inl e
      | Inr name \<Rightarrow>
     (case convert_elements fromisoformat (drop 1 row) of
        Inl e \<Rightarrow> Inl e
      | Inr [s, e] \<Rightarrow>
          load_bell_schedule fromisoformat rows (dict_set acc name \<lparr> start = s, end' = e \<rparr>)
      | Inr _ \<Rightarrow> Inl TypeError))"

fun load_term_days ::
  "string list list \<Rightarrow> (string \<Rightarrow> (string, string) Info option) \<Rightarrow>
   exn + (string \<Rightarrow> (string, string) Info option)" where
  "load_term_days [] acc = Inr acc"
| "load_term_days (row # rows) acc =
     (case list_get row 0 of
        Inl e \<Rightarrow> Inl e
      | Inr key \<Rightarrow>
     (case drop 1 row of
        [a, b, c, d, e] \<Rightarrow>
          load_term_days rows
            (acc(key \<mapsto> \<lparr> school = a, cycle = b, schedule = c, testing = d, events = e \<rparr>))
      | _ \<Rightarrow> Inl TypeError))"

text \<open>
  The four files opened by the module body. A handle is the list of rows that
  \<open>csv.reader\<close> still yields from it; \<open>list(csv.reader(handle))\<close> returns them all and
  leaves the handle at its end. No handle is opened for \<open>PTC_BELLS_PATH\<close> or
  \<open>EXTENDED_HOMEROOM_BELLS_PATH\<close>.
\<close>

record files =
  term_tsv :: "string list list"
  regular_tsv :: "string list list"
  conference_tsv :: "string list list"
  homeroom_tsv :: "string list list"

definition read_term_tsv :: "files \<Rightarrow> string list list \<times> files" where
  "read_term_tsv F = (term_tsv F, F\<lparr> term_tsv := [] \<rparr>)"

definition read_regular_tsv :: "files \<Rightarrow> string list list \<times> files" where
  "read_regular_tsv F = (regular_tsv F, F\<lparr> regular_tsv := [] \<rparr>)"

definition read_conference_tsv :: "files \<Rightarrow> string list list \<times> files" where
  "read_conference_tsv F = (conference_tsv F, F\<lparr> conference_tsv := [] \<rparr>)"

definition read_homeroom_tsv :: "files \<Rightarrow> string list list \<times> files" where
  "read_homeroom_tsv F = (homeroom_tsv F, F\<lparr> homeroom_tsv := [] \<rparr>)"

text \<open>
  The body of the \<open>with\<close> statement, in the order of the source. \<open>update_schedule()\<close>,
  which runs before it, writes the file \<open>text.tsv\<close> and none of the four files read here.
\<close>

definition load_module :: "(string \<Rightarrow> exn + time) \<Rightarrow> files \<Rightarrow> exn + env" where
  "load_module fromisoformat F0 =
     (case read_term_tsv F0 of (rows, F1) \<Rightarrow>
     (case load_term_days (drop 1 rows) Map.empty of
        Inl e \<Rightarrow> Inl e
      | Inr term_days \<Rightarrow>
     (case read_regular_tsv F1 of (rows, F2) \<Rightarrow>
     (case load_bell_schedule fromisoformat (drop 1 rows) [] of
        Inl e \<Rightarrow> Inl e
      | Inr regular \<Rightarrow>
     (case read_conference_tsv F2 of (rows, F3) \<Rightarrow>
     (case load_bell_schedule fromisoformat (drop 1 rows) [] of
        Inl e \<Rightarrow> Inl e
      | Inr conference \<Rightarrow>
     (case read_homeroom_tsv F3 of (rows, F4) \<Rightarrow>
     (case load_bell_schedule fromisoformat (drop 1 rows) [] of
        Inl e \<Rightarrow> Inl e
      | Inr homeroom \<Rightarrow>
     (case read_homeroom_tsv F4 of (rows, F5) \<Rightarrow>
     (case load_bell_schedule fromisoformat (drop 1 rows) [] of
        Inl e \<Rightarrow> Inl e
      | Inr ptc \<Rightarrow>
     (case read_homeroom_tsv F5 of (rows, F6) \<Rightarrow>
     (case load_bell_schedule fromisoformat (drop 1 rows) [] of
        Inl e \<Rightarrow> Inl e
      | Inr extended_homeroom \<Rightarrow>
          Inr \<lparr> TERM_DAYS = term_days,
                REGULAR_BELL_SCHEDULE = regular,
                CONFERENCE_BELL_SCHEDULE = conference,
                HOMEROOM_BELL_SCHEDULE = homeroom,
                PTC_BELL_SCHEDULE = ptc,
                EXTENDED_HOMEROOM_BELL_SCHEDULE = extended_homeroom \<rparr>))))))))))))"

section \<open>Day resolution\<close>

definition get_day_info :: "env \<Rightarrow> day_arg \<Rightarrow> exn + (bool, string option) Info" where
  "get_day_info E day =
     (if \<not> isinstance_date day then Inl InvalidDate
      else
        let iso_date = isoformat (to_date day) in
        case TERM_DAYS E iso_date of
          None \<Rightarrow> Inl DayNotInData
        | Some row \<Rightarrow>
            Inr \<lparr> school = (if school row = ''True'' then True else False),
                  cycle = (if cycle row \<noteq> ''None'' then Some (cycle row) else None),
                  schedule = (if schedule row \<noteq> ''None'' then Some (schedule row) else None),
                  testing = (if testing row \<noteq> ''None'' then Some (testing row) else None),
                  events = (if events row \<noteq> ''None'' then Some (events row) else None) \<rparr>)"

text \<open>
  The \<open>while\<close> loop of \<open>get_next_school_day\<close>, entered with the candidate \<open>next_day\<close>.
  The loop condition calls \<open>get_day_info\<close> before the body tests whether the candidate is
  in \<open>TERM_DAYS\<close>.
\<close>

function get_next_school_day_loop :: "env \<Rightarrow> date \<Rightarrow> exn + date option" where
  "get_next_school_day_loop E next_day =
     (case get_day_info E (Date next_day) of
        Inl e \<Rightarrow> Inl e
      | Inr info \<Rightarrow>
          if school info = False then
            if TERM_DAYS E (isoformat next_day) = None then Inr None
            else (case add_days next_day 1 of
                    Inl e \<Rightarrow> Inl e
                  | Inr nd \<Rightarrow> get_next_school_day_loop E nd)
          else Inr (Some next_day))"
  by pat_completeness auto
termination
  by (relation "measure (\<lambda>(E, d). nat (MAXORDINAL - d))")
     (auto simp: add_days_def Let_def split: if_splits)

declare get_next_school_day_loop.simps [simp del]

definition get_next_school_day :: "env \<Rightarrow> day_arg \<Rightarrow> bool \<Rightarrow> exn + date option" where
  "get_next_school_day E day always_same =
     (if \<not> isinstance_date day then Inl InvalidDate
      else
        let d = to_date day; iso_date = isoformat d in
        case TERM_DAYS E iso_date of
          None \<Rightarrow> Inl DayNotInData
        | Some row \<Rightarrow>
            if school row = ''True'' then Inr (Some d)
            else if always_same then Inr (Some d)
            else (case add_days d 1 of
                    Inl e \<Rightarrow> Inl e
                  | Inr next_day \<Rightarrow> get_next_school_day_loop E next_day))"

text \<open>
  A date returned by the loop is in session: the loop leaves only when the \<open>school\<close>
  field decoded by \<open>get_day_info\<close> is not False.
\<close>

lemma get_day_info_school:
  "get_day_info E (Date d) = Inr info \<Longrightarrow>
   \<exists>row. TERM_DAYS E (isoformat d) = Some row \<and> school info = (school row = ''True'')"
  by (auto simp: get_day_info_def Let_def split: option.splits if_splits)

lemma get_next_school_day_loop_in_session:
  "get_next_school_day_loop E nd = Inr (Some e) \<Longrightarrow>
   \<exists>row. TERM_DAYS E (isoformat e) = Some row \<and> school row = ''True''"
proof (induction E nd rule: get_next_school_day_loop.induct)
  case (1 E next_day)
  from "1.prems" obtain info where info: "get_day_info E (Date next_day) = Inr info"
    by (subst (asm) get_next_school_day_loop.simps) (auto split: sum.splits)
  show ?case
  proof (cases "school info")
    case True
    with info "1.prems" have "e = next_day"
      by (subst (asm) get_next_school_day_loop.simps) simp
    with get_day_info_school [OF info] True show ?thesis by auto
  next
    case False
    with info "1.prems" obtain nd where nd: "add_days next_day 1 = Inr nd"
      and present: "TERM_DAYS E (isoformat next_day) \<noteq> None"
      and rec: "get_next_school_day_loop E nd = Inr (Some e)"
      by (subst (asm) get_next_school_day_loop.simps) (auto split: sum.splits if_splits)
    from "1.IH" [OF info _ present nd rec] False show ?thesis by simp
  qed
qed

section \<open>Schedule resolution\<close>

function get_bell_schedule :: "env \<Rightarrow> day_arg \<Rightarrow> bool \<Rightarrow> exn + bells option" where
  "get_bell_schedule E day this_day =
     (if \<not> isinstance_date day then Inl InvalidDate
      else
        let d = to_date day; iso_date = isoformat d in
        case TERM_DAYS E iso_date of
          None \<Rightarrow> Inl DayNotInData
        | Some row \<Rightarrow>
            if school row = ''True'' then
              if schedule row = ''None'' then Inr None
              else if schedule row = ''Regular'' then Inr (Some (REGULAR_BELL_SCHEDULE E))
              else if schedule row = ''Conference'' then Inr (Some (CONFERENCE_BELL_SCHEDULE E))
              else if schedule row = ''Homeroom'' then Inr (Some (HOMEROOM_BELL_SCHEDULE E))
              else if schedule row = ''PTC'' then Inr (Some (PTC_BELL_SCHEDULE E))
              else if schedule row = ''Extended Homeroom''
                then Inr (Some (EXTENDED_HOMEROOM_BELL_SCHEDULE E))
              else Inr None
            else if this_day then Inr None
            else (case get_next_school_day E (Date d) False of
                    Inl e \<Rightarrow> Inl e
                  | Inr next_day \<Rightarrow> get_bell_schedule E (of_optional next_day) False))"
  by pat_completeness auto
termination
proof (relation "measure (\<lambda>(E, day, this_day).
         if isinstance_date day then
           (case TERM_DAYS E (isoformat (to_date day)) of
              None \<Rightarrow> 0
            | Some row \<Rightarrow> if school row = ''True'' then 0 else 1)
         else 0)", goal_cases)
  case 1
  show ?case by simp
next
  case (2 E day this_day d iso_date row next_day)
  show ?case
  proof (cases next_day)
    case None
    with 2 show ?thesis by simp
  next
    case (Some e)
    with 2 have "get_next_school_day_loop E (d + 1) = Inr (Some e)"
      by (auto simp: get_next_school_day_def add_days_def Let_def split: sum.splits if_splits)
    from get_next_school_day_loop_in_session [OF this] Some 2 show ?thesis by auto
  qed
qed

declare get_bell_schedule.simps [simp del]

section \<open>Period resolution\<close>

text \<open>The \<open>for\<close> loop of \<open>get_current_class\<close> over \<open>schedule.items()\<close>, with \<open>day\<close>
  already replaced by its time of day.\<close>

fun get_current_class_loop :: "time \<Rightarrow> bells \<Rightarrow> (string \<times> Time) option" where
  "get_current_class_loop t [] = None"
| "get_current_class_loop t (item # items) =
     (if start (snd item) \<le> t \<and> t \<le> end' (snd item) then Some item
      else get_current_class_loop t items)"

text \<open>
  \<open>day.time()\<close> exists on a \<open>datetime\<close> only, and \<open>schedule.items()\<close> on a \<open>dict\<close> only:
  a plain \<open>date\<close> and a schedule that is \<open>None\<close> raise AttributeError.
\<close>

definition get_current_class :: "env \<Rightarrow> day_arg \<Rightarrow> exn + (string \<times> Time) option" where
  "get_current_class E day =
     (case get_bell_schedule E day False of
        Inl e \<Rightarrow> Inl e
      | Inr sched \<Rightarrow>
          (case day of
             Datetime d t \<Rightarrow>
               (case sched of
                  None \<Rightarrow> Inl AttributeError
                | Some items \<Rightarrow> Inr (get_current_class_loop t items))
           | _ \<Rightarrow> Inl AttributeError))"

text \<open>
  The list and dict operations of \<open>get_next_class\<close>: \<open>schedule.keys()\<close>,
  \<open>list.index\<close> and \<open>schedule[key]\<close>. Where \<open>schedule\<close> is None, its \<open>items()\<close>
  and \<open>keys()\<close> raise AttributeError.
\<close>

definition keys :: "bells \<Rightarrow> string list" where
  "keys items = map fst items"

fun list_index :: "'a list \<Rightarrow> 'a \<Rightarrow> exn + nat" where
  "list_index [] x = Inl ValueError"
| "list_index (y # ys) x =
     (if y = x then Inr 0
      else case list_index ys x of Inl e \<Rightarrow> Inl e | Inr i \<Rightarrow> Inr (Suc i))"

definition dict_get :: "bells \<Rightarrow> string \<Rightarrow> exn + Time" where
  "dict_get items k = (case map_of items k of None \<Rightarrow> Inl KeyError | Some v \<Rightarrow> Inr v)"

definition get_next_class :: "env \<Rightarrow> day_arg \<Rightarrow> bool \<Rightarrow> exn + (string \<times> Time) option" where
  "get_next_class E day skip_passing =
     (case get_bell_schedule E day False of
        Inl e \<Rightarrow> Inl e
      | Inr sched \<Rightarrow>
     (case get_current_class E day of
        Inl e \<Rightarrow> Inl e
      | Inr None \<Rightarrow>
          (case sched of
             None \<Rightarrow> Inl AttributeError
           | Some [] \<Rightarrow> Inl StopIteration
           | Some (item # _) \<Rightarrow> Inr (Some item))
      | Inr (Some current_class) \<Rightarrow>
     (case sched of
        None \<Rightarrow> Inl AttributeError
      | Some items \<Rightarrow>
     (case list_index (keys items) (fst current_class) of
        Inl e \<Rightarrow> Inl e
      | Inr index \<Rightarrow>
          if int index = int (length (keys items)) - 1 then Inr None
          else
     (case list_get (keys items) (index + 1) of
        Inl e \<Rightarrow> Inl e
      | Inr next_class \<Rightarrow>
          if skip_passing \<and> str_contains ''Passing'' next_class then
            (case list_get (keys items) (index + 2) of
               Inl e \<Rightarrow> Inl e
             | Inr next_class \<Rightarrow>
                 (case dict_get items next_class of
                    Inl e \<Rightarrow> Inl e
                  | Inr v \<Rightarrow> Inr (Some (next_class, v))))
          else
            (case dict_get items next_class of
               Inl e \<Rightarrow> Inl e
             | Inr v \<Rightarrow> Inr (Some (next_class, v))))))))"

definition get_current_period :: "env \<Rightarrow> day_arg \<Rightarrow> exn + string option" where
  "get_current_period E time_of_period =
     (case get_current_class E time_of_period of
        Inl e \<Rightarrow> Inl e
      | Inr None \<Rightarrow> Inr None
      | Inr (Some current_class) \<Rightarrow> Inr (Some (fst current_class)))"

section \<open>Example tables\<close>

text \<open>
  A small calendar and three small bell schedules, used to run the functions on concrete
  dates. The ordinals 738771 to 738780 are the days 2023-09-08 to 2023-09-17; the last of
  them is not in the calendar.
\<close>

definition example_regular :: bells where
  "example_regular =
     [(''HR'', \<lparr> start = (8, 0, 0, 0), end' = (8, 20, 0, 0) \<rparr>),
      (''P1'', \<lparr> start = (8, 25, 0, 0), end' = (9, 10, 0, 0) \<rparr>)]"

definition example_conference :: bells where
  "example_conference =
     [(''P1'', \<lparr> start = (8, 0, 0, 0), end' = (8, 40, 0, 0) \<rparr>),
      (''Passing 1-2'', \<lparr> start = (8, 40, 0, 0), end' = (8, 45, 0, 0) \<rparr>),
      (''P2'', \<lparr> start = (13, 5, 0, 0), end' = (13, 45, 0, 0) \<rparr>)]"

definition example_homeroom :: bells where
  "example_homeroom = [(''Homeroom'', \<lparr> start = (8, 0, 0, 0), end' = (8, 10, 0, 0) \<rparr>)]"

definition day_row :: "string \<Rightarrow> string \<Rightarrow> (string, string) Info" where
  "day_row s v =
     \<lparr> school = s, cycle = ''A1'', schedule = v, testing = ''None'', events = ''None'' \<rparr>"

definition example_term_days :: "string \<Rightarrow> (string, string) Info option" where
  "example_term_days =
     [''2023-09-08'' \<mapsto> day_row ''True'' ''Conference'',
      ''2023-09-09'' \<mapsto> day_row ''False'' ''None'',
      ''2023-09-10'' \<mapsto> day_row ''False'' ''None'',
      ''2023-09-11'' \<mapsto> day_row ''True'' ''Regular'',
      ''2023-09-12'' \<mapsto> day_row ''True'' ''PTC'',
      ''2023-09-13'' \<mapsto> day_row ''True'' ''None'',
      ''2023-09-14'' \<mapsto> day_row ''True'' ''Special'',
      ''2023-09-15'' \<mapsto> day_row ''TRUE'' ''Regular'',
      ''2023-09-16'' \<mapsto> day_row ''False'' ''None'']"

definition example_env :: env where
  "example_env =
     \<lparr> TERM_DAYS = example_term_days,
       REGULAR_BELL_SCHEDULE = example_regular,
       CONFERENCE_BELL_SCHEDULE = example_conference,
       HOMEROOM_BELL_SCHEDULE = example_homeroom,
       PTC_BELL_SCHEDULE = [],
       EXTENDED_HOMEROOM_BELL_SCHEDULE = [] \<rparr>"

text \<open>The rows of four files whose bell schedules are the tables above.\<close>

definition example_files :: files where
  "example_files =
     \<lparr> term_tsv =
         [[''Day'', ''School'', ''Cycle'', ''Schedule'', ''Testing'', ''Events''],
          [''2023-09-11'', ''True'', ''A1'', ''Regular'', ''None'', ''None'']],
       regular_tsv =
         [[''Period'', ''Start'', ''End''],
          [''HR'', ''8:00 AM'', ''8:20 AM''],
          [''P1'', ''8:25 AM'', ''9:10 AM'']],
       conference_tsv =
         [[''Period'', ''Start'', ''End''],
          [''P1'', ''8:00 AM'', ''8:40 AM''],
          [''Passing 1-2'', ''8:40 AM'', ''8:45 AM''],
          [''P2'', ''1:05 PM'', ''1:45 PM'']],
       homeroom_tsv =
         [[''Period'', ''Start'', ''End''],
          [''Homeroom'', ''8:00 AM'', ''8:10 AM'']] \<rparr>"

text \<open>
  The values of \<open>time.fromisoformat\<close> on the strings that \<open>convert_12h_to_24h\<close> makes of
  the cells of the example files; no other string reaches it in the examples.
\<close>

definition example_fromisoformat :: "string \<Rightarrow> exn + time" where
  "example_fromisoformat hours24 =
     (case map_of
        [(''08:00'', (8, 0, 0, 0)), (''08:10'', (8, 10, 0, 0)), (''08:20'', (8, 20, 0, 0)),
         (''08:25'', (8, 25, 0, 0)), (''08:40'', (8, 40, 0, 0)), (''08:45'', (8, 45, 0, 0)),
         (''09:10'', (9, 10, 0, 0)), (''13:05'', (13, 5, 0, 0)), (''13:45'', (13, 45, 0, 0))]
        hours24 of
        Some t \<Rightarrow> Inr t
      | None \<Rightarrow> Inl ValueError)"

abbreviation within :: "time \<Rightarrow> string \<times> Time \<Rightarrow> bool" where
  "within t item \<equiv> start (snd item) \<le> t \<and> t \<le> end' (snd item)"

section \<open>Evaluation on the example tables\<close>

lemma isoformat_examples:
  "isoformat 738771 = ''2023-09-08''" "isoformat 738772 = ''2023-09-09''"
  "isoformat 738773 = ''2023-09-10''" "isoformat 738774 = ''2023-09-11''"
  "isoformat 738775 = ''2023-09-12''" "isoformat 738776 = ''2023-09-13''"
  "isoformat 738777 = ''2023-09-14''" "isoformat 738778 = ''2023-09-15''"
  "isoformat 738779 = ''2023-09-16''" "isoformat 738780 = ''2023-09-17''"
  by (simp_all add: isoformat_def ord2ymd_def Let_def DAYS_IN_MONTH_def DAYS_BEFORE_MONTH_def
        digit_def)

lemmas example_defs =
  example_env_def example_term_days_def day_row_def example_regular_def
  example_conference_def example_homeroom_def

lemmas day_defs =
  get_next_school_day_def get_next_school_day_loop.simps get_day_info_def add_days_def
  MAXORDINAL_def isoformat_examples

lemmas period_defs =
  get_next_class_def get_current_class_def keys_def list_get_def dict_get_def

section \<open>Properties of day resolution\<close>

text \<open>
  Claim C10. For a date present in the calendar, \<open>get_day_info\<close> returns an \<open>Info\<close>
  whose \<open>school\<close> field is True exactly when the stored string is \<open>True\<close>, and whose
  \<open>cycle\<close>, \<open>schedule\<close>, \<open>testing\<close> and \<open>events\<close> fields are None exactly when the
  stored string is \<open>None\<close> and the stored string itself otherwise.
\<close>

theorem get_day_info_decodes:
  assumes "isinstance_date day" and "TERM_DAYS E (isoformat (to_date day)) = Some row"
  shows "\<exists>info. get_day_info E day = Inr info \<and>
           (school info \<longleftrightarrow> school row = ''True'') \<and>
           (cycle info = (if cycle row = ''None'' then None else Some (cycle row))) \<and>
           (schedule info = (if schedule row = ''None'' then None else Some (schedule row))) \<and>
           (testing info = (if testing row = ''None'' then None else Some (testing row))) \<and>
           (events info = (if events row = ''None'' then None else Some (events row)))"
  using assms by (simp add: get_day_info_def)

text \<open>On 2023-09-15 the stored \<open>school\<close> string is \<open>TRUE\<close>, which decodes to False.\<close>

theorem get_day_info_decodes_witness:
  "isinstance_date (Date 738778) \<and>
   TERM_DAYS example_env (isoformat (to_date (Date 738778))) = Some (day_row ''TRUE'' ''Regular'') \<and>
   (\<exists>info. get_day_info example_env (Date 738778) = Inr info \<and>
      \<not> school info \<and> cycle info = Some ''A1'' \<and> schedule info = Some ''Regular'' \<and>
      testing info = None \<and> events info = None)"
proof -
  have h1: "isinstance_date (Date 738778)" by simp
  have h2: "TERM_DAYS example_env (isoformat (to_date (Date 738778))) =
      Some (day_row ''TRUE'' ''Regular'')"
    by (simp add: isoformat_examples example_defs)
  from get_day_info_decodes [OF h1 h2] h1 h2 show ?thesis
    by (simp add: day_row_def)
qed

text \<open>
  Claim C8. On a calendar date that is in session, \<open>get_next_school_day\<close> returns the date
  itself whatever \<open>always_same\<close> is; on a calendar date that is not in session and with
  \<open>always_same\<close> set, it returns the date itself as well.
\<close>

theorem get_next_school_day_same:
  assumes "isinstance_date day" and "TERM_DAYS E (isoformat (to_date day)) = Some row"
  shows "(school row = ''True'' \<longrightarrow>
            get_next_school_day E day always_same = Inr (Some (to_date day))) \<and>
         (school row \<noteq> ''True'' \<longrightarrow>
            get_next_school_day E day True = Inr (Some (to_date day)))"
  using assms by (simp add: get_next_school_day_def)

theorem get_next_school_day_same_witness:
  "get_next_school_day example_env (Datetime 738774 (8, 10, 0, 0)) False = Inr (Some 738774) \<and>
   get_next_school_day example_env (Datetime 738774 (8, 10, 0, 0)) True = Inr (Some 738774) \<and>
   get_next_school_day example_env (Date 738772) True = Inr (Some 738772)"
proof -
  have d1: "isinstance_date (Datetime 738774 (8, 10, 0, 0))" by simp
  have r1: "TERM_DAYS example_env (isoformat (to_date (Datetime 738774 (8, 10, 0, 0)))) =
      Some (day_row ''True'' ''Regular'')"
    by (simp add: isoformat_examples example_defs)
  have d2: "isinstance_date (Date 738772)" by simp
  have r2: "TERM_DAYS example_env (isoformat (to_date (Date 738772))) =
      Some (day_row ''False'' ''None'')"
    by (simp add: isoformat_examples example_defs)
  from get_next_school_day_same [OF d1 r1, of False] get_next_school_day_same [OF d1 r1, of True]
    get_next_school_day_same [OF d2 r2, of True]
  show ?thesis by (simp add: day_row_def)
qed

text \<open>
  What the forward scan returns when it returns: a date at or after the first candidate
  that is in session, every candidate before it being a calendar date that is not in
  session. The scan never returns None, and a candidate that is not in the calendar makes
  it raise DayNotInData.
\<close>

lemma get_next_school_day_loop_result:
  "get_next_school_day_loop E nd = Inr r \<Longrightarrow>
   \<exists>e. r = Some e \<and> nd \<le> e \<and>
       (\<exists>row. TERM_DAYS E (isoformat e) = Some row \<and> school row = ''True'') \<and>
       (\<forall>x. nd \<le> x \<and> x < e \<longrightarrow>
            (\<exists>row. TERM_DAYS E (isoformat x) = Some row \<and> school row \<noteq> ''True''))"
proof (induction E nd rule: get_next_school_day_loop.induct)
  case (1 E next_day)
  from "1.prems" obtain info where info: "get_day_info E (Date next_day) = Inr info"
    by (subst (asm) get_next_school_day_loop.simps) (auto split: sum.splits)
  from get_day_info_school [OF info] obtain row where
    row: "TERM_DAYS E (isoformat next_day) = Some row" "school info = (school row = ''True'')"
    by blast
  show ?case
  proof (cases "school info")
    case True
    with info "1.prems" have "r = Some next_day"
      by (subst (asm) get_next_school_day_loop.simps) simp
    with row True show ?thesis by auto
  next
    case False
    with info "1.prems" row obtain nd where nd: "add_days next_day 1 = Inr nd"
      and rec: "get_next_school_day_loop E nd = Inr r"
      by (subst (asm) get_next_school_day_loop.simps) (auto split: sum.splits if_splits)
    have present: "TERM_DAYS E (isoformat next_day) \<noteq> None" using row by simp
    from nd have nd_eq: "nd = next_day + 1"
      by (auto simp: add_days_def Let_def split: if_splits)
    from "1.IH" [OF info _ present nd rec] False obtain e where e: "r = Some e" "nd \<le> e"
      "\<exists>row. TERM_DAYS E (isoformat e) = Some row \<and> school row = ''True''"
      "\<forall>x. nd \<le> x \<and> x < e \<longrightarrow>
            (\<exists>row. TERM_DAYS E (isoformat x) = Some row \<and> school row \<noteq> ''True'')"
      by auto
    have "\<exists>row. TERM_DAYS E (isoformat x) = Some row \<and> school row \<noteq> ''True''"
      if "next_day \<le> x \<and> x < e" for x
    proof (cases "x = next_day")
      case True
      with row False show ?thesis by simp
    next
      case False
      with that nd_eq have "nd \<le> x \<and> x < e" by simp
      with e(4) show ?thesis by blast
    qed
    with e nd_eq show ?thesis by auto
  qed
qed

lemma get_next_school_day_loop_absent:
  "TERM_DAYS E (isoformat nd) = None \<Longrightarrow> get_next_school_day_loop E nd = Inl DayNotInData"
  by (subst get_next_school_day_loop.simps) (simp add: get_day_info_def)

lemma get_next_school_day_result:
  assumes "isinstance_date day" and "TERM_DAYS E (isoformat (to_date day)) = Some row"
    and "school row \<noteq> ''True''" and "get_next_school_day E day False = Inr r"
  shows "\<exists>e. r = Some e \<and> to_date day < e \<and>
           (\<exists>row. TERM_DAYS E (isoformat e) = Some row \<and> school row = ''True'') \<and>
           (\<forall>x. to_date day < x \<and> x < e \<longrightarrow>
                (\<exists>row. TERM_DAYS E (isoformat x) = Some row \<and> school row \<noteq> ''True''))"
proof -
  from assms have "get_next_school_day_loop E (to_date day + 1) = Inr r"
    by (auto simp: get_next_school_day_def add_days_def Let_def split: sum.splits if_splits)
  from get_next_school_day_loop_result [OF this] show ?thesis
    by (auto intro: zless_imp_add1_zle)
qed

text \<open>
  Claim C1. The claim asks that a forward scan which reaches a date missing from the
  calendar return None. The source tests for the missing date inside the loop body, after
  the loop condition has already called \<open>get_day_info\<close> on it: 2023-09-16 is in the
  example calendar and not in session, 2023-09-17 is not in the calendar, and
  \<open>get_next_school_day\<close> on 2023-09-16 raises DayNotInData instead of returning None.
\<close>

theorem get_next_school_day_horizon_raises:
  "TERM_DAYS example_env (isoformat 738779) = Some (day_row ''False'' ''None'') \<and>
   TERM_DAYS example_env (isoformat 738780) = None \<and>
   get_next_school_day example_env (Date 738779) False = Inl DayNotInData"
  by (simp add: day_defs example_defs)

section \<open>Properties of schedule resolution\<close>

text \<open>
  Claim C7. On a calendar date that is in session, \<open>get_bell_schedule\<close> returns the table
  whose name is exactly the stored schedule string, for the five names Regular, Conference,
  Homeroom, PTC and Extended Homeroom; for every other string, \<open>None\<close> included, it
  returns None and raises nothing.
\<close>

theorem get_bell_schedule_in_session:
  assumes "isinstance_date day" and "TERM_DAYS E (isoformat (to_date day)) = Some row"
    and "school row = ''True''"
  shows "(schedule row = ''Regular'' \<longrightarrow>
            get_bell_schedule E day this_day = Inr (Some (REGULAR_BELL_SCHEDULE E))) \<and>
         (schedule row = ''Conference'' \<longrightarrow>
            get_bell_schedule E day this_day = Inr (Some (CONFERENCE_BELL_SCHEDULE E))) \<and>
         (schedule row = ''Homeroom'' \<longrightarrow>
            get_bell_schedule E day this_day = Inr (Some (HOMEROOM_BELL_SCHEDULE E))) \<and>
         (schedule row = ''PTC'' \<longrightarrow>
            get_bell_schedule E day this_day = Inr (Some (PTC_BELL_SCHEDULE E))) \<and>
         (schedule row = ''Extended Homeroom'' \<longrightarrow>
            get_bell_schedule E day this_day = Inr (Some (EXTENDED_HOMEROOM_BELL_SCHEDULE E))) \<and>
         (schedule row \<notin> {''Regular'', ''Conference'', ''Homeroom'', ''PTC'', ''Extended Homeroom''} \<longrightarrow>
            get_bell_schedule E day this_day = Inr None)"
proof -
  have eq: "get_bell_schedule E day this_day =
      (if schedule row = ''None'' then Inr None
       else if schedule row = ''Regular'' then Inr (Some (REGULAR_BELL_SCHEDULE E))
       else if schedule row = ''Conference'' then Inr (Some (CONFERENCE_BELL_SCHEDULE E))
       else if schedule row = ''Homeroom'' then Inr (Some (HOMEROOM_BELL_SCHEDULE E))
       else if schedule row = ''PTC'' then Inr (Some (PTC_BELL_SCHEDULE E))
       else if schedule row = ''Extended Homeroom''
         then Inr (Some (EXTENDED_HOMEROOM_BELL_SCHEDULE E))
       else Inr None)"
    using assms by (subst get_bell_schedule.simps) simp
  show ?thesis unfolding eq by simp
qed

theorem get_bell_schedule_in_session_witness:
  "get_bell_schedule example_env (Date 738774) False = Inr (Some example_regular) \<and>
   get_bell_schedule example_env (Date 738771) True = Inr (Some example_conference) \<and>
   get_bell_schedule example_env (Date 738775) False = Inr (Some []) \<and>
   get_bell_schedule example_env (Date 738776) False = Inr None \<and>
   get_bell_schedule example_env (Date 738777) False = Inr None"
proof -
  have r1: "TERM_DAYS example_env (isoformat (to_date (Date 738774))) =
      Some (day_row ''True'' ''Regular'')"
    and r2: "TERM_DAYS example_env (isoformat (to_date (Date 738771))) =
      Some (day_row ''True'' ''Conference'')"
    and r3: "TERM_DAYS example_env (isoformat (to_date (Date 738775))) =
      Some (day_row ''True'' ''PTC'')"
    and r4: "TERM_DAYS example_env (isoformat (to_date (Date 738776))) =
      Some (day_row ''True'' ''None'')"
    and r5: "TERM_DAYS example_env (isoformat (to_date (Date 738777))) =
      Some (day_row ''True'' ''Special'')"
    by (simp_all add: isoformat_examples example_defs)
  have s: "school (day_row ''True'' v) = ''True''" for v by (simp add: day_row_def)
  have d: "isinstance_date (Date n)" for n by simp
  from get_bell_schedule_in_session [OF d r1 s, of False]
    get_bell_schedule_in_session [OF d r2 s, of True]
    get_bell_schedule_in_session [OF d r3 s, of False]
    get_bell_schedule_in_session [OF d r4 s, of False]
    get_bell_schedule_in_session [OF d r5 s, of False]
  show ?thesis by (simp add: day_row_def example_env_def)
qed

text \<open>
  On a calendar date that is not in session, \<open>get_bell_schedule\<close> with \<open>this_day\<close> set
  returns None; with \<open>this_day\<close> unset, whenever \<open>get_next_school_day\<close> returns a date,
  it returns what \<open>get_bell_schedule\<close> returns for that date.
\<close>

lemma get_bell_schedule_next_school_day:
  assumes "isinstance_date day" and "TERM_DAYS E (isoformat (to_date day)) = Some row"
    and "school row \<noteq> ''True''"
  shows "get_bell_schedule E day True = Inr None \<and>
         (\<forall>e. get_next_school_day E day False = Inr (Some e) \<longrightarrow>
              get_bell_schedule E day False = get_bell_schedule E (Date e) False)"
proof -
  have same: "get_next_school_day E (Date (to_date day)) False = get_next_school_day E day False"
    using assms(1) by (cases day) (simp_all add: get_next_school_day_def)
  have "get_bell_schedule E day True = Inr None"
    using assms by (subst get_bell_schedule.simps) simp
  moreover have "get_bell_schedule E day False = get_bell_schedule E (Date e) False"
    if "get_next_school_day E day False = Inr (Some e)" for e
    using assms that same by (subst get_bell_schedule.simps) simp
  ultimately show ?thesis by blast
qed

text \<open>
  From Saturday 2023-09-09 the scan passes Sunday and returns Monday 2023-09-11, whose
  schedule is the Regular table.
\<close>

lemma get_bell_schedule_next_school_day_example:
  "get_bell_schedule example_env (Date 738772) True = Inr None \<and>
   get_next_school_day example_env (Date 738772) False = Inr (Some 738774) \<and>
   get_bell_schedule example_env (Date 738772) False = Inr (Some example_regular)"
proof -
  have d: "isinstance_date (Date 738772)" by simp
  have r: "TERM_DAYS example_env (isoformat (to_date (Date 738772))) =
      Some (day_row ''False'' ''None'')"
    by (simp add: isoformat_examples example_defs)
  have s: "school (day_row ''False'' ''None'') \<noteq> ''True''" by (simp add: day_row_def)
  have n: "get_next_school_day example_env (Date 738772) False = Inr (Some 738774)"
    by (simp add: day_defs example_defs)
  have b: "get_bell_schedule example_env (Date 738774) False = Inr (Some example_regular)"
    by (subst get_bell_schedule.simps) (simp add: isoformat_examples example_defs)
  from get_bell_schedule_next_school_day [OF d r s] n b show ?thesis by simp
qed

text \<open>
  Claim C4. The claim asks that \<open>get_bell_schedule\<close>, on a calendar date that is not in
  session and with \<open>this_day\<close> unset, return None when no next school day exists. The
  source hands the date to \<open>get_next_school_day\<close>, whose forward scan raises DayNotInData
  on the first date missing from the calendar instead of returning None: 2023-09-16 is not
  in session and is the last date of the example calendar, and \<open>get_bell_schedule\<close>
  raises DayNotInData there.
\<close>

theorem get_bell_schedule_no_next_school_day:
  "TERM_DAYS example_env (isoformat 738779) = Some (day_row ''False'' ''None'') \<and>
   get_bell_schedule example_env (Date 738779) False = Inl DayNotInData \<and>
   get_bell_schedule example_env (Date 738779) False \<noteq> Inr None"
  by (simp add: get_bell_schedule.simps day_defs example_defs)

text \<open>
  Claim C5, as amended. The Regular, Conference and Homeroom tables are each loaded from
  their own file and hold what that file alone holds; the Conference table is not read
  from the Homeroom file.
\<close>

theorem load_module_sources:
  assumes "load_module fromisoformat F = Inr E"
  shows "load_bell_schedule fromisoformat (drop 1 (regular_tsv F)) [] =
           Inr (REGULAR_BELL_SCHEDULE E) \<and>
         load_bell_schedule fromisoformat (drop 1 (conference_tsv F)) [] =
           Inr (CONFERENCE_BELL_SCHEDULE E) \<and>
         load_bell_schedule fromisoformat (drop 1 (homeroom_tsv F)) [] =
           Inr (HOMEROOM_BELL_SCHEDULE E)"
  using assms
  by (auto simp: load_module_def read_term_tsv_def read_regular_tsv_def read_conference_tsv_def
        read_homeroom_tsv_def split: sum.splits)

lemmas load_defs =
  load_module_def read_term_tsv_def read_regular_tsv_def read_conference_tsv_def
  read_homeroom_tsv_def convert_12h_to_24h_def example_fromisoformat_def py_int_def strip_def
  is_space_def is_digit_def digits_value_def list_get_def str_int_def str_nat.simps digit_def

lemma load_module_example:
  "case load_module example_fromisoformat example_files of
     Inl e \<Rightarrow> False
   | Inr E \<Rightarrow>
       REGULAR_BELL_SCHEDULE E = example_regular \<and>
       CONFERENCE_BELL_SCHEDULE E = example_conference \<and>
       HOMEROOM_BELL_SCHEDULE E = example_homeroom \<and>
       PTC_BELL_SCHEDULE E = [] \<and>
       EXTENDED_HOMEROOM_BELL_SCHEDULE E = []"
  by (simp add: load_defs example_files_def example_conference_def example_regular_def
        example_homeroom_def)

theorem load_module_sources_witness:
  "\<exists>E. load_module example_fromisoformat example_files = Inr E \<and>
     load_bell_schedule example_fromisoformat (drop 1 (regular_tsv example_files)) [] =
       Inr example_regular \<and>
     load_bell_schedule example_fromisoformat (drop 1 (conference_tsv example_files)) [] =
       Inr example_conference \<and>
     load_bell_schedule example_fromisoformat (drop 1 (homeroom_tsv example_files)) [] =
       Inr example_homeroom"
proof -
  from load_module_example obtain E where E: "load_module example_fromisoformat example_files = Inr E"
    and tables: "REGULAR_BELL_SCHEDULE E = example_regular"
      "CONFERENCE_BELL_SCHEDULE E = example_conference"
      "HOMEROOM_BELL_SCHEDULE E = example_homeroom"
    by (auto split: sum.splits)
  from load_module_sources [OF E] E tables show ?thesis by simp
qed

text \<open>
  The claim as stated fails on the example files: the Conference table differs from the
  Homeroom table, and the PTC and Extended Homeroom tables, read from the Homeroom handle
  after it has reached its end, are empty while the Homeroom table is not. Nor are the
  Regular and Homeroom tables distinct by construction: two files with the same rows give
  the same table.
\<close>

theorem load_module_tables_not_aliased:
  "(case load_module example_fromisoformat example_files of
      Inl e \<Rightarrow> False
    | Inr E \<Rightarrow>
        CONFERENCE_BELL_SCHEDULE E \<noteq> HOMEROOM_BELL_SCHEDULE E \<and>
        PTC_BELL_SCHEDULE E \<noteq> HOMEROOM_BELL_SCHEDULE E \<and>
        EXTENDED_HOMEROOM_BELL_SCHEDULE E \<noteq> HOMEROOM_BELL_SCHEDULE E) \<and>
   (case load_module example_fromisoformat
           (example_files\<lparr> regular_tsv := homeroom_tsv example_files \<rparr>) of
      Inl e \<Rightarrow> False
    | Inr E \<Rightarrow> REGULAR_BELL_SCHEDULE E = HOMEROOM_BELL_SCHEDULE E)"
  by (simp add: load_defs example_files_def)

section \<open>Properties of period resolution\<close>

lemma get_current_class_loop_Some:
  "get_current_class_loop t items = Some item \<Longrightarrow>
   \<exists>i<length items. items ! i = item \<and> within t item \<and> (\<forall>j<i. \<not> within t (items ! j))"
proof (induction items)
  case Nil
  then show ?case by simp
next
  case (Cons x xs)
  show ?case
  proof (cases "within t x")
    case True
    with Cons.prems have "item = x" by simp
    with True show ?thesis by (intro exI [of _ 0]) simp
  next
    case False
    with Cons.prems have "get_current_class_loop t xs = Some item" by simp
    from Cons.IH [OF this] obtain i where i: "i < length xs" "xs ! i = item" "within t item"
      "\<forall>j<i. \<not> within t (xs ! j)" by blast
    have "\<forall>j<Suc i. \<not> within t ((x # xs) ! j)"
    proof (intro allI impI)
      fix j assume "j < Suc i"
      with i(4) False show "\<not> within t ((x # xs) ! j)" by (cases j) auto
    qed
    with i show ?thesis by (intro exI [of _ "Suc i"]) simp
  qed
qed

lemma get_current_class_loop_None:
  "get_current_class_loop t items = None \<Longrightarrow> \<forall>item\<in>set items. \<not> within t item"
  by (induction items) (auto split: if_splits)

text \<open>
  Claim C6. When the bell schedule of a timestamp is a table, \<open>get_current_class\<close> returns
  the first item in the table's order whose interval from \<open>start\<close> to \<open>end\<close>, both ends
  included, contains the time of day; it returns None when no item's interval does.
\<close>

theorem get_current_class_first_match:
  assumes "get_bell_schedule E (Datetime d t) False = Inr (Some items)"
  shows "(\<exists>i<length items.
            get_current_class E (Datetime d t) = Inr (Some (items ! i)) \<and>
            within t (items ! i) \<and> (\<forall>j<i. \<not> within t (items ! j))) \<or>
         (get_current_class E (Datetime d t) = Inr None \<and>
            (\<forall>item\<in>set items. \<not> within t item))"
proof (cases "get_current_class_loop t items")
  case None
  with assms get_current_class_loop_None [OF None] show ?thesis
    by (simp add: get_current_class_def)
next
  case (Some item)
  from get_current_class_loop_Some [OF Some] obtain i where "i < length items"
    "items ! i = item" "within t item" "\<forall>j<i. \<not> within t (items ! j)" by blast
  with assms Some show ?thesis
    by (intro disjI1 exI [of _ i]) (simp add: get_current_class_def)
qed

text \<open>
  At 08:40 on 2023-09-08 both P1, which ends at 08:40, and the passing period, which
  starts at 08:40, contain the time; the earlier item P1 is returned.
\<close>

theorem get_current_class_first_match_witness:
  "get_bell_schedule example_env (Datetime 738771 (8, 40, 0, 0)) False =
     Inr (Some example_conference) \<and>
   within (8, 40, 0, 0) (example_conference ! 0) \<and>
   within (8, 40, 0, 0) (example_conference ! 1) \<and>
   get_current_class example_env (Datetime 738771 (8, 40, 0, 0)) =
     Inr (Some (example_conference ! 0))"
proof -
  have h: "get_bell_schedule example_env (Datetime 738771 (8, 40, 0, 0)) False =
      Inr (Some example_conference)"
    by (subst get_bell_schedule.simps) (simp add: isoformat_examples example_defs)
  have c: "get_current_class example_env (Datetime 738771 (8, 40, 0, 0)) =
      Inr (Some (example_conference ! 0))"
    by (simp add: get_current_class_def h) (simp add: example_conference_def)
  from get_current_class_first_match [OF h] h c show ?thesis
    by (simp add: example_conference_def)
qed

text \<open>
  Claim C9. On a timestamp whose bell schedule is the empty table, \<open>get_next_class\<close>
  finds no current period and then raises StopIteration, from \<open>next\<close> on the iterator
  of the empty table; it returns no value.
\<close>

theorem get_next_class_empty_schedule:
  assumes "get_bell_schedule E (Datetime d t) False = Inr (Some [])"
  shows "get_current_class E (Datetime d t) = Inr None \<and>
         get_next_class E (Datetime d t) skip_passing = Inl StopIteration"
  using assms by (simp add: get_next_class_def get_current_class_def)

text \<open>2023-09-12 is a PTC day, and the PTC table of the example is empty.\<close>

theorem get_next_class_empty_schedule_witness:
  "get_bell_schedule example_env (Datetime 738775 (8, 10, 0, 0)) False = Inr (Some []) \<and>
   get_current_class example_env (Datetime 738775 (8, 10, 0, 0)) = Inr None \<and>
   get_next_class example_env (Datetime 738775 (8, 10, 0, 0)) False = Inl StopIteration \<and>
   get_next_class example_env (Datetime 738775 (8, 10, 0, 0)) True = Inl StopIteration"
proof -
  have h: "get_bell_schedule example_env (Datetime 738775 (8, 10, 0, 0)) False = Inr (Some [])"
    by (subst get_bell_schedule.simps) (simp add: isoformat_examples example_defs)
  from get_next_class_empty_schedule [OF h, of False] get_next_class_empty_schedule [OF h, of True] h
  show ?thesis by simp
qed

text \<open>
  Claim C2, as amended. On a timestamp whose bell schedule resolves to None,
  \<open>get_current_class\<close> raises AttributeError, the fault of calling \<open>items\<close> on None;
  the source has no separate error for a missing schedule.
\<close>

theorem get_current_class_no_schedule:
  assumes "get_bell_schedule E (Datetime d t) False = Inr None"
  shows "get_current_class E (Datetime d t) = Inl AttributeError"
  using assms by (simp add: get_current_class_def)

text \<open>2023-09-14 is in session with the schedule name \<open>Special\<close>, which names no table.\<close>

theorem get_current_class_no_schedule_witness:
  "get_bell_schedule example_env (Datetime 738777 (8, 10, 0, 0)) False = Inr None \<and>
   get_current_class example_env (Datetime 738777 (8, 10, 0, 0)) = Inl AttributeError"
proof -
  have h: "get_bell_schedule example_env (Datetime 738777 (8, 10, 0, 0)) False = Inr None"
    by (subst get_bell_schedule.simps) (simp add: isoformat_examples example_defs)
  from get_current_class_no_schedule [OF h] h show ?thesis by simp
qed

text \<open>
  The claim as stated fails on 2023-09-13, a day in session whose schedule string is
  \<open>None\<close>: the error raised is the AttributeError that the claim excludes.
\<close>

theorem get_current_class_raises_attribute_error:
  "get_bell_schedule example_env (Datetime 738776 (8, 10, 0, 0)) False = Inr None \<and>
   get_current_class example_env (Datetime 738776 (8, 10, 0, 0)) = Inl AttributeError"
  by (simp add: get_current_class_def get_bell_schedule.simps isoformat_examples example_defs)

lemma list_index_nth:
  "distinct xs \<Longrightarrow> i < length xs \<Longrightarrow> list_index xs (xs ! i) = Inr i"
proof (induction xs arbitrary: i)
  case Nil
  then show ?case by simp
next
  case (Cons x xs)
  then show ?case by (cases i) auto
qed

lemma dict_get_nth:
  "distinct (keys items) \<Longrightarrow> i < length items \<Longrightarrow>
   dict_get items (keys items ! i) = Inr (snd (items ! i))"
proof -
  assume d: "distinct (keys items)" and i: "i < length items"
  have "(fst (items ! i), snd (items ! i)) \<in> set items" using i by simp
  with d have "map_of items (fst (items ! i)) = Some (snd (items ! i))"
    by (simp add: keys_def)
  with i show ?thesis by (simp add: dict_get_def keys_def)
qed

text \<open>
  Claim C3, as amended. When the current period is item \<open>i\<close> of a schedule with distinct
  period names, the item after it has a name containing \<open>Passing\<close> and is the
  second-to-last item, \<open>get_next_class\<close> with \<open>skip_passing\<close> set returns the item two
  positions ahead, which is the last item of the schedule; it returns neither None nor an
  out-of-range fault.
\<close>

theorem get_next_class_skips_passing:
  assumes sched: "get_bell_schedule E (Datetime d t) False = Inr (Some items)"
    and dist: "distinct (keys items)"
    and cur: "get_current_class E (Datetime d t) = Inr (Some (items ! i))"
    and pos: "i + 3 = length items"
    and passing: "str_contains ''Passing'' (fst (items ! (i + 1)))"
  shows "get_next_class E (Datetime d t) True = Inr (Some (items ! (i + 2)))"
proof -
  have len: "length (keys items) = length items" by (simp add: keys_def)
  have idx: "list_index (keys items) (fst (items ! i)) = Inr i"
    using list_index_nth [OF dist, of i] pos by (simp add: keys_def)
  have k1: "list_get (keys items) (i + 1) = Inr (fst (items ! (i + 1)))"
    using pos by (simp add: list_get_def keys_def)
  have k2: "list_get (keys items) (i + 2) = Inr (keys items ! (i + 2))"
    using pos by (simp add: list_get_def keys_def)
  have v2: "dict_get items (keys items ! (i + 2)) = Inr (snd (items ! (i + 2)))"
    using dict_get_nth [OF dist, of "i + 2"] pos by simp
  have k2': "keys items ! (i + 2) = fst (items ! (i + 2))"
    using pos by (simp add: keys_def)
  have notlast: "int i \<noteq> int (length (keys items)) - 1" using pos len by simp
  show ?thesis
    unfolding get_next_class_def sched cur
    using idx k1 k2 v2 k2' notlast passing by simp
qed

text \<open>
  At 08:30 on 2023-09-08 the current period is P1, the first of the three items of the
  Conference table; the passing period after it is skipped and P2 is returned.
\<close>

theorem get_next_class_skips_passing_witness:
  "get_current_class example_env (Datetime 738771 (8, 30, 0, 0)) =
     Inr (Some (example_conference ! 0)) \<and>
   0 + 3 = length example_conference \<and>
   str_contains ''Passing'' (fst (example_conference ! (0 + 1))) \<and>
   get_next_class example_env (Datetime 738771 (8, 30, 0, 0)) True =
     Inr (Some (''P2'', \<lparr> start = (13, 5, 0, 0), end' = (13, 45, 0, 0) \<rparr>))"
proof -
  have sched: "get_bell_schedule example_env (Datetime 738771 (8, 30, 0, 0)) False =
      Inr (Some example_conference)"
    by (subst get_bell_schedule.simps) (simp add: isoformat_examples example_defs)
  have dist: "distinct (keys example_conference)"
    by (simp add: keys_def example_conference_def)
  have cur: "get_current_class example_env (Datetime 738771 (8, 30, 0, 0)) =
      Inr (Some (example_conference ! 0))"
    by (simp add: get_current_class_def sched) (simp add: example_conference_def)
  have pos: "0 + 3 = length example_conference" by (simp add: example_conference_def)
  have passing: "str_contains ''Passing'' (fst (example_conference ! (0 + 1)))"
    by (simp add: example_conference_def)
  from get_next_class_skips_passing [OF sched dist cur pos passing] cur pos passing
  show ?thesis by (simp add: example_conference_def)
qed

text \<open>
  The claim as stated fails at 08:10 on the same day: the current period is P1, the
  following item \<open>Passing 1-2\<close> is the second-to-last of the three items, and the result
  is the item P2, not None.
\<close>

theorem get_next_class_returns_last_item:
  "get_bell_schedule example_env (Datetime 738771 (8, 10, 0, 0)) False =
     Inr (Some example_conference) \<and>
   length example_conference = 3 \<and>
   get_current_class example_env (Datetime 738771 (8, 10, 0, 0)) =
     Inr (Some (example_conference ! 0)) \<and>
   str_contains ''Passing'' (fst (example_conference ! 1)) \<and>
   get_next_class example_env (Datetime 738771 (8, 10, 0, 0)) True =
     Inr (Some (example_conference ! 2)) \<and>
   get_next_class example_env (Datetime 738771 (8, 10, 0, 0)) True \<noteq> Inr None"
  by (simp add: period_defs get_bell_schedule.simps isoformat_examples example_defs)

end
